theory Spec2Isabelle
  imports Complex_Main "HOL-Library.Product_Lexorder" "HOL-Library.Multiset"
begin

section \<open>Floating-point values\<close>

text \<open>
  A pandas float column holds IEEE doubles, and a missing reading is the value NaN.
  The model keeps the four kinds of double that the program distinguishes: a finite
  number (as a real, so rounding is not modelled), the two infinities and NaN.
  Comparisons with NaN are false, except \<open>!=\<close>, which is true.
\<close>

datatype fl = Fin real | PInf | NInf | NaN

fun fl_lt :: "fl \<Rightarrow> fl \<Rightarrow> bool" where
  "fl_lt NaN _ = False"
| "fl_lt _ NaN = False"
| "fl_lt (Fin a) (Fin b) = (a < b)"
| "fl_lt (Fin _) PInf = True"
| "fl_lt (Fin _) NInf = False"
| "fl_lt NInf (Fin _) = True"
| "fl_lt NInf PInf = True"
| "fl_lt NInf NInf = False"
| "fl_lt PInf _ = False"

definition fl_gt :: "fl \<Rightarrow> fl \<Rightarrow> bool" where
  "fl_gt a b = fl_lt b a"

fun fl_eq :: "fl \<Rightarrow> fl \<Rightarrow> bool" where
  "fl_eq NaN _ = False"
| "fl_eq _ NaN = False"
| "fl_eq a b = (a = b)"

definition fl_ne :: "fl \<Rightarrow> fl \<Rightarrow> bool" where
  "fl_ne a b = (\<not> fl_eq a b)"

definition fl_le :: "fl \<Rightarrow> fl \<Rightarrow> bool" where
  "fl_le a b = (fl_lt a b \<or> fl_eq a b)"

definition fl_ge :: "fl \<Rightarrow> fl \<Rightarrow> bool" where
  "fl_ge a b = fl_le b a"

fun fl_neg :: "fl \<Rightarrow> fl" where
  "fl_neg (Fin a) = Fin (- a)"
| "fl_neg PInf = NInf"
| "fl_neg NInf = PInf"
| "fl_neg NaN = NaN"

fun fl_abs :: "fl \<Rightarrow> fl" where
  "fl_abs (Fin a) = Fin \<bar>a\<bar>"
| "fl_abs PInf = PInf"
| "fl_abs NInf = PInf"
| "fl_abs NaN = NaN"

fun fl_add :: "fl \<Rightarrow> fl \<Rightarrow> fl" where
  "fl_add NaN _ = NaN"
| "fl_add _ NaN = NaN"
| "fl_add (Fin a) (Fin b) = Fin (a + b)"
| "fl_add (Fin _) PInf = PInf"
| "fl_add (Fin _) NInf = NInf"
| "fl_add PInf NInf = NaN"
| "fl_add PInf _ = PInf"
| "fl_add NInf PInf = NaN"
| "fl_add NInf _ = NInf"

definition fl_sub :: "fl \<Rightarrow> fl \<Rightarrow> fl" where
  "fl_sub a b = fl_add a (fl_neg b)"

text \<open>The sign of an infinite product or quotient, from the sign of the finite operand.\<close>

definition signed_inf :: "bool \<Rightarrow> fl" where
  "signed_inf positive = (if positive then PInf else NInf)"

fun fl_mul :: "fl \<Rightarrow> fl \<Rightarrow> fl" where
  "fl_mul NaN _ = NaN"
| "fl_mul _ NaN = NaN"
| "fl_mul (Fin a) (Fin b) = Fin (a * b)"
| "fl_mul (Fin a) PInf = (if a = 0 then NaN else signed_inf (0 < a))"
| "fl_mul (Fin a) NInf = (if a = 0 then NaN else signed_inf (a < 0))"
| "fl_mul PInf (Fin b) = (if b = 0 then NaN else signed_inf (0 < b))"
| "fl_mul NInf (Fin b) = (if b = 0 then NaN else signed_inf (b < 0))"
| "fl_mul PInf PInf = PInf"
| "fl_mul PInf NInf = NInf"
| "fl_mul NInf PInf = NInf"
| "fl_mul NInf NInf = PInf"

text \<open>
  Division of numpy doubles does not raise: a zero divisor gives an infinity or NaN.
  Signed zeros are not modelled, so a zero divisor counts as \<open>+0\<close>; every division
  of the program is behind a guard that excludes a zero divisor.
\<close>

fun fl_div :: "fl \<Rightarrow> fl \<Rightarrow> fl" where
  "fl_div NaN _ = NaN"
| "fl_div _ NaN = NaN"
| "fl_div (Fin a) (Fin b) =
     (if b = 0 then (if a = 0 then NaN else signed_inf (0 < a)) else Fin (a / b))"
| "fl_div (Fin _) PInf = Fin 0"
| "fl_div (Fin _) NInf = Fin 0"
| "fl_div PInf (Fin b) = signed_inf (0 \<le> b)"
| "fl_div NInf (Fin b) = signed_inf (b < 0)"
| "fl_div PInf _ = NaN"
| "fl_div NInf _ = NaN"

definition isnan :: "fl \<Rightarrow> bool" where
  "isnan x = (x = NaN)"

section \<open>Series\<close>

text \<open>A pandas Series of floats is a list of cells; \<open>dropna\<close> removes the missing ones.\<close>

definition dropna :: "fl list \<Rightarrow> fl list" where
  "dropna xs = filter (\<lambda>x. \<not> isnan x) xs"

definition fl_sum :: "fl list \<Rightarrow> fl" where
  "fl_sum xs = foldl fl_add (Fin 0) xs"

text \<open>\<open>Series.mean()\<close> skips missing values; the mean of no values is NaN.\<close>

definition mean :: "fl list \<Rightarrow> fl" where
  "mean xs = (let vals = dropna xs in
     if vals = [] then NaN else fl_div (fl_sum vals) (Fin (real (length vals))))"

fun insort_fl :: "fl \<Rightarrow> fl list \<Rightarrow> fl list" where
  "insort_fl x [] = [x]"
| "insort_fl x (y # ys) = (if fl_le x y then x # y # ys else y # insort_fl x ys)"

definition sort_fl :: "fl list \<Rightarrow> fl list" where
  "sort_fl xs = foldr insort_fl xs []"

text \<open>
  \<open>Series.quantile(q)\<close>: the missing values are dropped, the rest sorted, and the value
  at the fractional position \<open>(n - 1) * q\<close> is interpolated linearly between its two
  neighbours. The quantile of no values is NaN.
\<close>

definition quantile :: "real \<Rightarrow> fl list \<Rightarrow> fl" where
  "quantile q xs = (let vals = sort_fl (dropna xs); n = length vals in
     if n = 0 then NaN
     else let pos = real (n - 1) * q;
              lo = nat \<lfloor>pos\<rfloor>;
              hi = min (lo + 1) (n - 1);
              g = pos - real lo
          in fl_add (vals ! lo) (fl_mul (fl_sub (vals ! hi) (vals ! lo)) (Fin g)))"

section \<open>Measurement records and datasets\<close>

text \<open>
  A timestamp is a calendar date (year, month, day) and the time within that day;
  timestamps and dates are ordered lexicographically, which is chronological order.
\<close>

type_synonym date = "int \<times> nat \<times> nat"
type_synonym timestamp = "date \<times> nat"

definition dt_date :: "timestamp \<Rightarrow> date" where
  "dt_date t = fst t"

definition dt_year :: "timestamp \<Rightarrow> int" where
  "dt_year t = fst (fst t)"

datatype variable =
  temperature | pressure | chlorophyll_a | turbidity | salinity | ph
  | dissolved_oxygen | pco2 | ta

record row =
  datetime :: timestamp
  cell :: "variable \<Rightarrow> fl"

type_synonym frame = "row list"

definition column :: "frame \<Rightarrow> variable \<Rightarrow> fl list" where
  "column df v = map (\<lambda>r. cell r v) df"

text \<open>
  The file as \<open>pd.read_csv\<close> returns it: one record per line, the cells under the
  headers of the file, the timestamp already parsed (\<open>pd.to_datetime\<close>).
\<close>

record csv_row =
  csv_datetime :: timestamp
  csv_field :: "string \<Rightarrow> fl"

text \<open>The fixed table of \<open>df.rename(columns=...)\<close>, read from the canonical name.\<close>

fun source_header :: "variable \<Rightarrow> string" where
  "source_header temperature = ''Temperature ('' @ [CHR 0xC2, CHR 0xBA] @ ''C)''"
| "source_header pressure = ''Pressure (dbar)''"
| "source_header chlorophyll_a = ''Chlorophyll (ug/L)''"
| "source_header turbidity = ''Turbidity (NTU)''"
| "source_header salinity = ''Salinity (PSU)''"
| "source_header ph = ''pH''"
| "source_header dissolved_oxygen = ''OD umolKg-1''"
| "source_header pco2 = ''pCO2''"
| "source_header ta = ''TA (ueq/kg)''"

definition rename_row :: "csv_row \<Rightarrow> row" where
  "rename_row c = \<lparr>datetime = csv_datetime c, cell = (\<lambda>v. csv_field c (source_header v))\<rparr>"

section \<open>Loader and outlier filter\<close>

text \<open>\<open>df.loc[df[v] > bound, v] = np.nan\<close> and its mirror image with \<open><\<close>.\<close>

definition null_above :: "variable \<Rightarrow> fl \<Rightarrow> frame \<Rightarrow> frame" where
  "null_above v bound df =
     map (\<lambda>r. if fl_gt (cell r v) bound then r\<lparr>cell := (cell r)(v := NaN)\<rparr> else r) df"

definition null_below :: "variable \<Rightarrow> fl \<Rightarrow> frame \<Rightarrow> frame" where
  "null_below v bound df =
     map (\<lambda>r. if fl_lt (cell r v) bound then r\<lparr>cell := (cell r)(v := NaN)\<rparr> else r) df"

definition load_raw_data :: "csv_row list \<Rightarrow> frame" where
  "load_raw_data csv = map rename_row csv"

definition load_data :: "csv_row list \<Rightarrow> frame" where
  "load_data csv =
     (let df = map rename_row csv;
          df = null_above chlorophyll_a (Fin 200) df;
          turbidity_threshold = quantile (99 / 100) (column df turbidity);
          df = null_above turbidity turbidity_threshold df;
          df = null_below ta (Fin 2000) df
      in df)"

section \<open>Range selector\<close>

text \<open>
  The sidebar's \<open>date_input\<close> returns a tuple of zero, one or two dates. Its default
  value is the pair of the dates of the earliest and the latest timestamp.
\<close>

fun series_min :: "timestamp list \<Rightarrow> timestamp option" where
  "series_min [] = None"
| "series_min (t # ts) = Some (fold min ts t)"

fun series_max :: "timestamp list \<Rightarrow> timestamp option" where
  "series_max [] = None"
| "series_max (t # ts) = Some (fold max ts t)"

definition default_date_range :: "frame \<Rightarrow> date list option" where
  "default_date_range df =
     (case (series_min (map datetime df), series_max (map datetime df)) of
        (Some lo, Some hi) \<Rightarrow> Some [dt_date lo, dt_date hi]
      | _ \<Rightarrow> None)"

definition date_filter :: "date list \<Rightarrow> frame \<Rightarrow> frame" where
  "date_filter date_range df =
     (if length date_range = 2
      then filter (\<lambda>r. dt_date (datetime r) \<ge> date_range ! 0
                      \<and> dt_date (datetime r) \<le> date_range ! 1) df
      else df)"

text \<open>The four frames every section of the script reads.\<close>

record session =
  data :: frame
  raw_data :: frame
  filtered_data :: frame
  filtered_raw_data :: frame

definition script :: "csv_row list \<Rightarrow> date list \<Rightarrow> session" where
  "script csv date_range =
     \<lparr>data = load_data csv,
      raw_data = load_raw_data csv,
      filtered_data = date_filter date_range (load_data csv),
      filtered_raw_data = date_filter date_range (load_raw_data csv)\<rparr>"

section \<open>Exceptions and the statistics library\<close>

datatype exn = ValueError | ZeroDivisionError | OtherException

fun for_each :: "('a \<Rightarrow> exn + 'b) \<Rightarrow> 'a list \<Rightarrow> exn + 'b list" where
  "for_each f [] = Inr []"
| "for_each f (x # xs) =
     (case f x of
        Inl e \<Rightarrow> Inl e
      | Inr y \<Rightarrow> (case for_each f xs of Inl e \<Rightarrow> Inl e | Inr ys \<Rightarrow> Inr (y # ys)))"

text \<open>
  The significance tests come from scipy. Their p-values are special functions that the
  model does not compute: the tests are parameters, and each of them may raise on any
  input. A test returns its statistic and its p-value. \<open>pearsonr\<close> takes the
  alternative hypothesis as a keyword argument, whose default is \<open>'two-sided'\<close>.
\<close>

datatype alternative = two_sided | less | greater

record scipy_stats =
  pearsonr :: "alternative \<Rightarrow> fl list \<Rightarrow> fl list \<Rightarrow> exn + fl \<times> fl"
  mannwhitneyu :: "fl list \<Rightarrow> fl list \<Rightarrow> exn + fl \<times> fl"
  ttest_ind :: "fl list \<Rightarrow> fl list \<Rightarrow> exn + fl \<times> fl"

section \<open>Statistical analysis: correlation\<close>

definition variables :: "variable list" where
  "variables = [temperature, pressure, salinity, chlorophyll_a, turbidity, ph,
                dissolved_oxygen, pco2, ta]"

text \<open>\<open>var.replace('_', ' ').title()\<close> for each name of the list.\<close>

fun var_label :: "variable \<Rightarrow> string" where
  "var_label temperature = ''Temperature''"
| "var_label pressure = ''Pressure''"
| "var_label salinity = ''Salinity''"
| "var_label chlorophyll_a = ''Chlorophyll A''"
| "var_label turbidity = ''Turbidity''"
| "var_label ph = ''Ph''"
| "var_label dissolved_oxygen = ''Dissolved Oxygen''"
| "var_label pco2 = ''Pco2''"
| "var_label ta = ''Ta''"

definition var_labels :: "string list" where
  "var_labels = map var_label variables"

text \<open>
  The arithmetic of doubles: every operation returns the rounding of its exact result.
  The rounding is a parameter of the model, a function from the reals to the doubles
  that may overflow to an infinity and underflow to zero; an infinity or NaN that an
  operation returns is not rounded.
\<close>

definition rounded :: "(real \<Rightarrow> fl) \<Rightarrow> fl \<Rightarrow> fl" where
  "rounded rnd v = (case v of Fin x \<Rightarrow> rnd x | _ \<Rightarrow> v)"

fun fl_sqrt :: "fl \<Rightarrow> fl" where
  "fl_sqrt (Fin a) = (if a < 0 then NaN else Fin (sqrt a))"
| "fl_sqrt PInf = PInf"
| "fl_sqrt NInf = NaN"
| "fl_sqrt NaN = NaN"



text \<open>
  \<open>DataFrame.corr()\<close> (Pearson, \<open>min_periods = 1\<close>) is the routine \<open>nancorr\<close> of
  pandas. For each pair of columns \<open>xj \<le> xi\<close> it runs over the rows where both cells
  are finite and accumulates, by Welford's method, the two means, the two sums of
  squared deviations and the sum of the products of the deviations:

  \<^verbatim>\<open>nobs += 1
  dx = vx - meanx
  dy = vy - meany
  meanx += 1. / nobs * dx
  meany += 1. / nobs * dy
  ssqdm_x += (vx - meanx) * dx
  ssqdm_y += (vy - meany) * dy
  covxy += (vx - meanx) * dy\<close>

  The entry is NaN when no row is left or the divisor \<open>sqrt(ssqdm_x * ssqdm_y)\<close> is
  zero, and \<open>covxy / divisor\<close> clipped to \<open>[-1, 1]\<close> otherwise. It is stored at both
  positions \<open>(xi, xj)\<close> and \<open>(xj, xi)\<close>.
\<close>

fun finite_pair :: "fl \<times> fl \<Rightarrow> (real \<times> real) list" where
  "finite_pair (Fin a, Fin b) = [(a, b)]"
| "finite_pair _ = []"

definition finite_pairs :: "frame \<Rightarrow> variable \<Rightarrow> variable \<Rightarrow> (real \<times> real) list" where
  "finite_pairs df v w = concat (map (\<lambda>r. finite_pair (cell r v, cell r w)) df)"

record welford =
  nobs :: nat
  meanx :: fl
  meany :: fl
  ssqdm_x :: fl
  ssqdm_y :: fl
  covxy :: fl

definition welford_step :: "(real \<Rightarrow> fl) \<Rightarrow> welford \<Rightarrow> real \<times> real \<Rightarrow> welford" where
  "welford_step rnd st q =
     (let vx = Fin (fst q);
          vy = Fin (snd q);
          n = nobs st + 1;
          dx = rounded rnd (fl_sub vx (meanx st));
          dy = rounded rnd (fl_sub vy (meany st));
          w = rounded rnd (fl_div (Fin 1) (Fin (real n)));
          mx = rounded rnd (fl_add (meanx st) (rounded rnd (fl_mul w dx)));
          my = rounded rnd (fl_add (meany st) (rounded rnd (fl_mul w dy)));
          sx = rounded rnd (fl_add (ssqdm_x st)
                 (rounded rnd (fl_mul (rounded rnd (fl_sub vx mx)) dx)));
          sy = rounded rnd (fl_add (ssqdm_y st)
                 (rounded rnd (fl_mul (rounded rnd (fl_sub vy my)) dy)));
          c = rounded rnd (fl_add (covxy st)
                 (rounded rnd (fl_mul (rounded rnd (fl_sub vx mx)) dy)))
      in \<lparr>nobs = n, meanx = mx, meany = my, ssqdm_x = sx, ssqdm_y = sy, covxy = c\<rparr>)"

definition nancorr :: "(real \<Rightarrow> fl) \<Rightarrow> (real \<times> real) list \<Rightarrow> fl" where
  "nancorr rnd ps =
     (let st = foldl (welford_step rnd)
                 \<lparr>nobs = 0, meanx = Fin 0, meany = Fin 0, ssqdm_x = Fin 0, ssqdm_y = Fin 0,
                  covxy = Fin 0\<rparr> ps
      in if nobs st < 1 then NaN
         else
           (let divisor = rounded rnd (fl_sqrt (rounded rnd (fl_mul (ssqdm_x st) (ssqdm_y st))))
            in if fl_ne divisor (Fin 0) then
                 (let val = rounded rnd (fl_div (covxy st) divisor)
                  in if fl_gt val (Fin 1) then Fin 1
                     else if fl_lt val (Fin (- 1)) then Fin (- 1)
                     else val)
               else NaN))"



text \<open>
  The entry at position \<open>(i, j)\<close>: computed with the variable of the larger position as
  \<open>x\<close> and the other as \<open>y\<close>, and stored at both positions.
\<close>

definition corr_entry :: "(real \<Rightarrow> fl) \<Rightarrow> frame \<Rightarrow> nat \<Rightarrow> nat \<Rightarrow> fl" where
  "corr_entry rnd df i j =
     (if j \<le> i then nancorr rnd (finite_pairs df (variables ! i) (variables ! j))
      else nancorr rnd (finite_pairs df (variables ! j) (variables ! i)))"

definition corr_matrix :: "(real \<Rightarrow> fl) \<Rightarrow> frame \<Rightarrow> fl list list" where
  "corr_matrix rnd df =
     map (\<lambda>i. map (\<lambda>j. corr_entry rnd df i j) [0..<length variables])
       [0..<length variables]"

text \<open>\<open>df[[v, w]].dropna()\<close>: the rows where neither of the two cells is missing.\<close>

definition valid_data :: "frame \<Rightarrow> variable \<Rightarrow> variable \<Rightarrow> frame" where
  "valid_data df v w = filter (\<lambda>r. \<not> isnan (cell r v) \<and> \<not> isnan (cell r w)) df"

definition p_value :: "scipy_stats \<Rightarrow> frame \<Rightarrow> nat \<Rightarrow> nat \<Rightarrow> exn + fl" where
  "p_value S df i j =
     (if i \<noteq> j then
        (let valid = valid_data df (variables ! i) (variables ! j) in
         if length valid > 2 then
           (case pearsonr S two_sided (column valid (variables ! i))
                   (column valid (variables ! j)) of
              Inl e \<Rightarrow> Inl e
            | Inr (_, p_val) \<Rightarrow> Inr p_val)
         else Inr (Fin 1))
      else Inr (Fin 0))"

definition p_values :: "scipy_stats \<Rightarrow> frame \<Rightarrow> exn + fl list list" where
  "p_values S df =
     for_each (\<lambda>i. for_each (\<lambda>j. p_value S df i j) [0..<length variables])
       [0..<length variables]"

section \<open>Statistical analysis: best-fit pairs\<close>

text \<open>
  The dictionary appended to \<open>best_pairs\<close>; its keys \<open>r\<close>, \<open>r2\<close> and \<open>p\<close> are the
  fields \<open>pair_r\<close>, \<open>pair_r2\<close> and \<open>pair_p\<close>.
\<close>

record pair =
  var1 :: variable
  var2 :: variable
  var1_label :: string
  var2_label :: string
  pair_r :: fl
  pair_r2 :: fl
  pair_p :: fl

definition threshold_r :: fl where
  "threshold_r = Fin (sqrt (8 / 10))"

definition candidate :: "fl list list \<Rightarrow> fl list list \<Rightarrow> nat \<Rightarrow> nat \<Rightarrow> pair list" where
  "candidate corr p_vals i j =
     (let r_val = corr ! i ! j; p_val = p_vals ! i ! j in
      if fl_gt (fl_abs r_val) threshold_r \<and> fl_lt p_val (Fin (5 / 100))
      then [\<lparr>var1 = variables ! i, var2 = variables ! j,
             var1_label = var_labels ! i, var2_label = var_labels ! j,
             pair_r = r_val, pair_r2 = fl_mul r_val r_val, pair_p = p_val\<rparr>]
      else [])"

definition candidates :: "fl list list \<Rightarrow> fl list list \<Rightarrow> pair list" where
  "candidates corr p_vals =
     concat (map (\<lambda>i. concat (map (\<lambda>j. candidate corr p_vals i j) [i + 1..<length variables]))
       [0..<length variables])"

text \<open>The dictionary that the loop appends for the pair of positions \<open>(i, j)\<close>.\<close>

definition entry :: "fl list list \<Rightarrow> fl list list \<Rightarrow> nat \<Rightarrow> nat \<Rightarrow> pair" where
  "entry corr p_vals i j =
     \<lparr>var1 = variables ! i, var2 = variables ! j,
      var1_label = var_labels ! i, var2_label = var_labels ! j,
      pair_r = corr ! i ! j, pair_r2 = fl_mul (corr ! i ! j) (corr ! i ! j),
      pair_p = p_vals ! i ! j\<rparr>"

text \<open>
  \<open>sorted(xs, key=..., reverse=True)\<close> is a stable sort: it compares keys with \<open><\<close>
  only, puts larger keys first and keeps elements with equal keys in the order of
  \<open>xs\<close>. On keys that \<open><\<close> orders totally every such sort returns the same list; the
  model inserts each element in front of the first one whose key is not larger.
\<close>

fun insort_reverse :: "('a \<Rightarrow> fl) \<Rightarrow> 'a \<Rightarrow> 'a list \<Rightarrow> 'a list" where
  "insort_reverse key x [] = [x]"
| "insort_reverse key x (y # ys) =
     (if fl_lt (key x) (key y) then y # insort_reverse key x ys else x # y # ys)"

definition sorted_reverse :: "('a \<Rightarrow> fl) \<Rightarrow> 'a list \<Rightarrow> 'a list" where
  "sorted_reverse key xs = foldr (insort_reverse key) xs []"

definition best_pairs :: "fl list list \<Rightarrow> fl list list \<Rightarrow> pair list" where
  "best_pairs corr p_vals = take 6 (sorted_reverse pair_r2 (candidates corr p_vals))"

definition statistical_analysis ::
  "scipy_stats \<Rightarrow> (real \<Rightarrow> fl) \<Rightarrow> session \<Rightarrow> exn + pair list" where
  "statistical_analysis S rnd s =
     (case p_values S (filtered_data s) of
        Inl e \<Rightarrow> Inl e
      | Inr p_vals \<Rightarrow> Inr (best_pairs (corr_matrix rnd (filtered_data s)) p_vals))"

section \<open>Data overview: IQR outlier summary\<close>

text \<open>
  The count of outliers is an integer and is divided by the number of values. The model
  lets a division by zero fail, as Python's own division does, so that reaching it
  would show as an error of the summary.
\<close>

definition true_divide :: "nat \<Rightarrow> nat \<Rightarrow> exn + fl" where
  "true_divide a b = (if b = 0 then Inl ZeroDivisionError else Inr (Fin (real a / real b)))"

definition outlier_entry :: "frame \<Rightarrow> variable \<Rightarrow> exn + fl \<times> nat \<times> string" where
  "outlier_entry df var =
     (let vals = dropna (column df var) in
      if length vals > 0 then
        (let Q1 = quantile (25 / 100) vals;
             Q3 = quantile (75 / 100) vals;
             IQR = fl_sub Q3 Q1;
             lower_bound = fl_sub Q1 (fl_mul (Fin (15 / 10)) IQR);
             upper_bound = fl_add Q3 (fl_mul (Fin (15 / 10)) IQR);
             outliers_count =
               length (filter (\<lambda>x. fl_lt x lower_bound \<or> fl_gt x upper_bound) vals)
         in case true_divide outliers_count (length vals) of
              Inl e \<Rightarrow> Inl e
            | Inr q \<Rightarrow> Inr (fl_mul q (Fin 100), outliers_count, var_label var))
      else Inr (Fin 0, 0, var_label var))"

text \<open>
  The three parallel lists \<open>outlier_percentages\<close>, \<open>outlier_counts\<close> and
  \<open>var_labels_sorted\<close>, as one list of triples.
\<close>

definition outlier_summary :: "session \<Rightarrow> exn + (fl \<times> nat \<times> string) list" where
  "outlier_summary s = for_each (outlier_entry (filtered_raw_data s)) variables"

section \<open>Interannual variability\<close>

definition variables_to_plot :: "variable list" where
  "variables_to_plot = [temperature, pressure, salinity, chlorophyll_a, turbidity, ph,
                        dissolved_oxygen, pco2, ta]"

fun var_labels_dict :: "variable \<Rightarrow> string" where
  "var_labels_dict temperature = ''Temperature''"
| "var_labels_dict pressure = ''Pressure''"
| "var_labels_dict salinity = ''Salinity''"
| "var_labels_dict chlorophyll_a = ''Chlorophyll-a''"
| "var_labels_dict turbidity = ''Turbidity''"
| "var_labels_dict ph = ''pH''"
| "var_labels_dict dissolved_oxygen = ''Dissolved Oxygen''"
| "var_labels_dict pco2 = ''pCO2''"
| "var_labels_dict ta = ''TA''"

text \<open>\<open>data[data['datetime'].dt.year == y][var].dropna()\<close>\<close>

definition year_values :: "frame \<Rightarrow> int \<Rightarrow> variable \<Rightarrow> fl list" where
  "year_values df y var = dropna (column (filter (\<lambda>r. dt_year (datetime r) = y) df) var)"

text \<open>
  The line of the histogram's annotation for one test: the formatted p-value, or the
  text \<open>N/A\<close> written by the handler of the exception.
\<close>

datatype test_report = P_equals fl | N_A

record summary =
  Variable :: string
  Mean_2024 :: fl
  Mean_2025 :: fl
  Pct_Change :: fl
  Significance :: string
  P_Value :: fl

record comparison =
  mw_result :: test_report
  t_result :: test_report
  summary_row :: summary

definition pct_change :: "fl \<Rightarrow> fl \<Rightarrow> fl" where
  "pct_change mean_2024 mean_2025 =
     (if fl_ne mean_2024 (Fin 0)
      then fl_mul (fl_div (fl_sub mean_2025 mean_2024) mean_2024) (Fin 100)
      else PInf)"

definition year_comparison :: "scipy_stats \<Rightarrow> frame \<Rightarrow> variable \<Rightarrow> comparison" where
  "year_comparison S df var =
     (let data_2024 = year_values df 2024 var;
          data_2025 = year_values df 2025 var;
          (mw_result, mw_p) =
            (case mannwhitneyu S data_2024 data_2025 of
               Inr (mw_stat, mw_p) \<Rightarrow> (P_equals mw_p, mw_p)
             | Inl e \<Rightarrow> (N_A, NaN));
          (t_result, t_p) =
            (case ttest_ind S data_2024 data_2025 of
               Inr (t_stat, t_p) \<Rightarrow> (P_equals t_p, t_p)
             | Inl e \<Rightarrow> (N_A, NaN));
          mean_2024 = mean data_2024;
          mean_2025 = mean data_2025;
          significance =
            (if fl_lt mw_p (Fin (5 / 100)) then ''Significant'' else ''Not Significant'')
      in \<lparr>mw_result = mw_result, t_result = t_result,
          summary_row =
            \<lparr>Variable = var_labels_dict var, Mean_2024 = mean_2024, Mean_2025 = mean_2025,
             Pct_Change = pct_change mean_2024 mean_2025,
             Significance = significance, P_Value = mw_p\<rparr>\<rparr>)"

definition significant_changes :: "summary list \<Rightarrow> summary list" where
  "significant_changes summary_data =
     filter (\<lambda>row. fl_lt (P_Value row) (Fin (5 / 100)) \<and> \<not> isnan (P_Value row)) summary_data"

text \<open>
  The section reads \<open>data\<close>, the clean dataset as loaded, and returns the annotations
  and summary line of every variable and the list of significant changes.
\<close>

definition interannual_variability ::
  "scipy_stats \<Rightarrow> session \<Rightarrow> comparison list \<times> summary list" where
  "interannual_variability S s =
     (let comparisons = map (year_comparison S (data s)) variables_to_plot;
          summary_data = map summary_row comparisons
      in (comparisons, significant_changes summary_data))"

section \<open>Example inputs\<close>

text \<open>A file of one line whose chlorophyll reading is 250.\<close>

definition chl_csv :: "csv_row list" where
  "chl_csv =
     [\<lparr>csv_datetime = ((2024, 1, 1), 0),
       csv_field = (\<lambda>h. if h = ''Chlorophyll (ug/L)'' then Fin 250 else Fin 2300)\<rparr>]"

text \<open>A file of three lines on three consecutive days.\<close>

definition three_days :: "csv_row list" where
  "three_days =
     [\<lparr>csv_datetime = ((2024, 1, 2), 600), csv_field = (\<lambda>h. Fin 2100)\<rparr>,
      \<lparr>csv_datetime = ((2024, 1, 1), 300), csv_field = (\<lambda>h. Fin 2200)\<rparr>,
      \<lparr>csv_datetime = ((2024, 1, 3), 0), csv_field = (\<lambda>h. NaN)\<rparr>]"

text \<open>A row that only holds a temperature reading.\<close>

definition temperature_row :: "timestamp \<Rightarrow> fl \<Rightarrow> row" where
  "temperature_row t x = \<lparr>datetime = t, cell = (\<lambda>v. if v = temperature then x else NaN)\<rparr>"

text \<open>Temperatures 1 and 3 in 2024, 5 and 7 in 2025.\<close>

definition two_years :: frame where
  "two_years =
     [temperature_row ((2024, 1, 1), 0) (Fin 1), temperature_row ((2024, 1, 2), 0) (Fin 3),
      temperature_row ((2025, 1, 1), 0) (Fin 5), temperature_row ((2025, 1, 2), 0) (Fin 7)]"

text \<open>Temperatures whose mean is 0 in 2024, and a negative one in 2025.\<close>

definition zero_baseline :: frame where
  "zero_baseline =
     [temperature_row ((2024, 1, 1), 0) (Fin (- 1)), temperature_row ((2024, 1, 2), 0) (Fin 1),
      temperature_row ((2025, 1, 1), 0) (Fin (- 2))]"

text \<open>Readings in 2024 only: the partition of 2025 is empty.\<close>

definition only_2024 :: frame where
  "only_2024 =
     [temperature_row ((2024, 1, 1), 0) (Fin 4), temperature_row ((2024, 1, 2), 0) (Fin 6)]"

text \<open>A statistics library whose two-sample tests raise on an empty sample.\<close>

definition strict_tests :: scipy_stats where
  "strict_tests =
     \<lparr>pearsonr = (\<lambda>a x y. if length x < 2 then Inl ValueError else Inr (Fin 0, Fin 1)),
      mannwhitneyu = (\<lambda>x y. if x = [] \<or> y = [] then Inl ValueError else Inr (Fin 0, Fin (1 / 100))),
      ttest_ind = (\<lambda>x y. if x = [] \<or> y = [] then Inl ValueError else Inr (Fin 0, Fin (2 / 100)))\<rparr>"

text \<open>A session whose four frames are one given frame.\<close>

definition session_of :: "frame \<Rightarrow> session" where
  "session_of df = \<lparr>data = df, raw_data = df, filtered_data = df, filtered_raw_data = df\<rparr>"

text \<open>
  Correlations of 0.9 in the first row, of -0.95 between the second and the third
  variable and of 0.1 elsewhere; every p-value is 0.01.
\<close>

definition example_corr :: "fl list list" where
  "example_corr =
     replicate 9 (Fin (9 / 10)) #
     (replicate 9 (Fin (1 / 10)))[2 := Fin (- (95 / 100))] #
     replicate 7 (replicate 9 (Fin (1 / 10)))"

definition example_p :: "fl list list" where
  "example_p = replicate 9 (replicate 9 (Fin (1 / 100)))"







section \<open>The clean dataset respects the fixed bounds\<close>

lemma fl_not_gt_le: "\<not> fl_gt x b \<Longrightarrow> x \<noteq> NaN \<Longrightarrow> b \<noteq> NaN \<Longrightarrow> fl_le x b"
  by (cases x; cases b) (auto simp: fl_gt_def fl_le_def)

lemma fl_not_lt_ge: "\<not> fl_lt x b \<Longrightarrow> x \<noteq> NaN \<Longrightarrow> b \<noteq> NaN \<Longrightarrow> fl_ge x b"
  by (cases x; cases b) (auto simp: fl_ge_def fl_le_def)

lemma null_above_cell:
  "r \<in> set (null_above v b df) \<Longrightarrow> b \<noteq> NaN \<Longrightarrow> cell r v = NaN \<or> fl_le (cell r v) b"
  using fl_not_gt_le [of "cell r v" b] by (auto simp: null_above_def split: if_splits)

lemma null_below_cell:
  "r \<in> set (null_below v b df) \<Longrightarrow> b \<noteq> NaN \<Longrightarrow> cell r v = NaN \<or> fl_ge (cell r v) b"
  using fl_not_lt_ge [of "cell r v" b] by (auto simp: null_below_def split: if_splits)

lemma null_above_other:
  "r \<in> set (null_above v b df) \<Longrightarrow> w \<noteq> v \<Longrightarrow> \<exists>r0 \<in> set df. cell r w = cell r0 w"
  by (auto simp: null_above_def split: if_splits)

lemma null_below_other:
  "r \<in> set (null_below v b df) \<Longrightarrow> w \<noteq> v \<Longrightarrow> \<exists>r0 \<in> set df. cell r w = cell r0 w"
  by (auto simp: null_below_def split: if_splits)

lemma quantile_single:
  "x \<noteq> NaN \<Longrightarrow> quantile q [x] = fl_add x (fl_mul (fl_sub x x) (Fin 0))"
  by (simp add: quantile_def dropna_def isnan_def sort_fl_def)

text \<open>
  C6. In every row of the clean dataset the chlorophyll cell is missing or at most 200
  and the alkalinity cell is missing or at least 2000. Cleaning removes no row, and the
  raw dataset holds, cell by cell, the values of the file.
\<close>

theorem load_data_bounds:
  "(\<forall>r \<in> set (load_data csv).
      (cell r chlorophyll_a = NaN \<or> fl_le (cell r chlorophyll_a) (Fin 200)) \<and>
      (cell r ta = NaN \<or> fl_ge (cell r ta) (Fin 2000))) \<and>
   length (load_data csv) = length csv \<and>
   length (load_raw_data csv) = length csv \<and>
   (\<forall>i < length csv. \<forall>v.
      cell (load_raw_data csv ! i) v = csv_field (csv ! i) (source_header v))"
proof -
  let ?d1 = "null_above chlorophyll_a (Fin 200) (map rename_row csv)"
  let ?d2 = "null_above turbidity (quantile (99 / 100) (column ?d1 turbidity)) ?d1"
  have ld: "load_data csv = null_below ta (Fin 2000) ?d2"
    by (simp add: load_data_def Let_def)
  have chl: "cell r chlorophyll_a = NaN \<or> fl_le (cell r chlorophyll_a) (Fin 200)"
    if "r \<in> set (load_data csv)" for r
  proof -
    from that obtain r2 where r2: "r2 \<in> set ?d2" "cell r chlorophyll_a = cell r2 chlorophyll_a"
      unfolding ld using null_below_other [of r ta "Fin 2000" ?d2 chlorophyll_a] by auto
    then obtain r1 where r1: "r1 \<in> set ?d1" "cell r2 chlorophyll_a = cell r1 chlorophyll_a"
      using null_above_other [of r2 turbidity _ ?d1 chlorophyll_a] by auto
    from null_above_cell [OF r1(1)] r1(2) r2(2) show ?thesis by simp
  qed
  have alk: "cell r ta = NaN \<or> fl_ge (cell r ta) (Fin 2000)"
    if "r \<in> set (load_data csv)" for r
    using that null_below_cell [of r ta "Fin 2000" ?d2] unfolding ld by simp
  have len: "length (load_data csv) = length csv"
    by (simp add: ld null_below_def null_above_def)
  have raw: "cell (load_raw_data csv ! i) v = csv_field (csv ! i) (source_header v)"
    if "i < length csv" for i v
    using that by (simp add: load_raw_data_def rename_row_def)
  show ?thesis using chl alk len raw by (simp add: load_raw_data_def)
qed

text \<open>
  The reading of 250 is missing in the clean dataset and is 250 in the raw one; the
  alkalinity of 2300 is kept.
\<close>

theorem load_data_bounds_witness:
  "load_data chl_csv \<noteq> [] \<and>
   cell (load_data chl_csv ! 0) chlorophyll_a = NaN \<and>
   fl_ge (cell (load_data chl_csv ! 0) ta) (Fin 2000) \<and>
   cell (load_raw_data chl_csv ! 0) chlorophyll_a = Fin 250"
  using load_data_bounds [of chl_csv]
  by (simp add: chl_csv_def load_data_def load_raw_data_def null_above_def null_below_def
      rename_row_def column_def fl_gt_def fl_ge_def fl_le_def quantile_single fl_sub_def)

section \<open>The outlier threshold does not depend on the date range\<close>

lemma date_filter_null_above:
  "date_filter dr (null_above v b df) = null_above v b (date_filter dr df)"
  by (simp add: date_filter_def null_above_def filter_map o_def if_distrib cong: if_cong)

lemma date_filter_null_below:
  "date_filter dr (null_below v b df) = null_below v b (date_filter dr df)"
  by (simp add: date_filter_def null_below_def filter_map o_def if_distrib cong: if_cong)

lemma column_null_above_other:
  "w \<noteq> v \<Longrightarrow> column (null_above v b df) w = column df w"
  by (simp add: column_def null_above_def)

lemma column_null_below_other:
  "w \<noteq> v \<Longrightarrow> column (null_below v b df) w = column df w"
  by (simp add: column_def null_below_def)

lemma column_null_above_same:
  "column (null_above v b df) v = map (\<lambda>x. if fl_gt x b then NaN else x) (column df v)"
  by (simp add: column_def null_above_def)

lemma load_data_steps:
  "load_data csv =
     null_below ta (Fin 2000)
       (null_above turbidity (quantile (99 / 100) (column (load_raw_data csv) turbidity))
          (null_above chlorophyll_a (Fin 200) (load_raw_data csv)))"
  by (simp add: load_data_def load_raw_data_def Let_def column_null_above_other)

text \<open>
  C2. The turbidity threshold is the 99th percentile of the whole raw dataset. The
  filtered clean dataset is the filtered raw dataset with the three rules applied under
  that threshold: selecting the range before the outliers are nulled gives the same
  frame as selecting it after, and the same turbidity cells are missing.
\<close>

theorem turbidity_threshold_before_filter:
  "filtered_data (script csv date_range) =
     null_below ta (Fin 2000)
       (null_above turbidity
          (quantile (99 / 100) (column (raw_data (script csv date_range)) turbidity))
          (null_above chlorophyll_a (Fin 200) (filtered_raw_data (script csv date_range)))) \<and>
   column (filtered_data (script csv date_range)) turbidity =
     map (\<lambda>x. if fl_gt x (quantile (99 / 100)
                             (column (raw_data (script csv date_range)) turbidity))
               then NaN else x)
       (column (filtered_raw_data (script csv date_range)) turbidity)"
  by (simp add: script_def load_data_steps date_filter_null_above date_filter_null_below
      column_null_above_other column_null_below_other column_null_above_same)

section \<open>The range selector\<close>

lemma fold_min_le:
  "fold min ts (t::timestamp) \<le> t \<and> (\<forall>x \<in> set ts. fold min ts t \<le> x)"
proof (induction ts arbitrary: t)
  case Nil
  show ?case by simp
next
  case (Cons a ts)
  from Cons.IH [of "min a t"] show ?case by (auto simp: min_le_iff_disj)
qed

lemma fold_max_ge:
  "t \<le> fold max ts (t::timestamp) \<and> (\<forall>x \<in> set ts. x \<le> fold max ts t)"
proof (induction ts arbitrary: t)
  case Nil
  show ?case by simp
next
  case (Cons a ts)
  from Cons.IH [of "max a t"] show ?case by (auto simp: le_max_iff_disj)
qed

lemma dt_date_mono: "s \<le> t \<Longrightarrow> dt_date s \<le> dt_date t"
  using less_eq_prod_def [of s t] order_less_imp_le [of "fst s" "fst t"]
  unfolding dt_date_def by blast

lemma default_range_covers:
  assumes "default_date_range df = Some full" and "r \<in> set df"
  shows "length full = 2 \<and> full ! 0 \<le> dt_date (datetime r) \<and> dt_date (datetime r) \<le> full ! 1"
proof (cases df)
  case Nil
  with assms show ?thesis by simp
next
  case (Cons r0 rs)
  let ?ts = "map datetime rs"
  from assms(1) Cons
  have full: "full = [dt_date (fold min ?ts (datetime r0)), dt_date (fold max ?ts (datetime r0))]"
    by (simp add: default_date_range_def)
  from assms(2) Cons have "datetime r = datetime r0 \<or> datetime r \<in> set ?ts" by auto
  then have "fold min ?ts (datetime r0) \<le> datetime r" "datetime r \<le> fold max ?ts (datetime r0)"
    using fold_min_le [of ?ts "datetime r0"] fold_max_ge [of "datetime r0" ?ts] by auto
  then show ?thesis using full by (simp add: dt_date_mono)
qed

lemma date_filter_full:
  assumes "default_date_range df' = Some full" and "map datetime df = map datetime df'"
  shows "date_filter full df = df"
proof -
  have "default_date_range df = Some full"
    using assms by (simp add: default_date_range_def)
  then have "\<forall>r \<in> set df. full ! 0 \<le> dt_date (datetime r) \<and> dt_date (datetime r) \<le> full ! 1"
    using default_range_covers by blast
  then show ?thesis by (simp add: date_filter_def)
qed

lemma datetime_null_above: "map datetime (null_above v b df) = map datetime df"
  by (simp add: null_above_def)

lemma datetime_null_below: "map datetime (null_below v b df) = map datetime df"
  by (simp add: null_below_def)

lemma datetime_load_data: "map datetime (load_data csv) = map datetime (load_raw_data csv)"
  by (simp only: load_data_steps datetime_null_above datetime_null_below)

lemma datetime_date_filter:
  "map datetime (date_filter dr df) =
     (if length dr = 2
      then filter (\<lambda>t. dr ! 0 \<le> dt_date t \<and> dt_date t \<le> dr ! 1) (map datetime df)
      else map datetime df)"
  by (simp add: date_filter_def filter_map o_def)

text \<open>
  C7. With two bounds both filtered frames are the rows of their dataset whose calendar
  date lies between the bounds, in the order of the dataset; with fewer than two bounds
  they are the whole datasets. A dataset with a row has a default range, and selecting
  that range returns both datasets unchanged.
\<close>

theorem range_selector:
  "(length date_range = 2 \<longrightarrow>
      filtered_data (script csv date_range) =
        filter (\<lambda>r. date_range ! 0 \<le> dt_date (datetime r) \<and>
                     dt_date (datetime r) \<le> date_range ! 1)
          (data (script csv date_range)) \<and>
      filtered_raw_data (script csv date_range) =
        filter (\<lambda>r. date_range ! 0 \<le> dt_date (datetime r) \<and>
                     dt_date (datetime r) \<le> date_range ! 1)
          (raw_data (script csv date_range))) \<and>
   (length date_range < 2 \<longrightarrow>
      filtered_data (script csv date_range) = data (script csv date_range) \<and>
      filtered_raw_data (script csv date_range) = raw_data (script csv date_range)) \<and>
   (csv \<noteq> [] \<longrightarrow> default_date_range (load_data csv) \<noteq> None) \<and>
   (default_date_range (load_data csv) = Some date_range \<longrightarrow>
      filtered_data (script csv date_range) = data (script csv date_range) \<and>
      filtered_raw_data (script csv date_range) = raw_data (script csv date_range))"
proof -
  have a: "default_date_range (load_data csv) \<noteq> None" if "csv \<noteq> []"
  proof -
    from that have "map datetime (load_data csv) \<noteq> []"
      by (simp add: datetime_load_data load_raw_data_def)
    then obtain t ts where "map datetime (load_data csv) = t # ts"
      by (cases "map datetime (load_data csv)") auto
    then show ?thesis by (simp add: default_date_range_def)
  qed
  have b: "date_filter date_range (load_data csv) = load_data csv \<and>
      date_filter date_range (load_raw_data csv) = load_raw_data csv"
    if "default_date_range (load_data csv) = Some date_range"
    using that date_filter_full [of "load_data csv" date_range "load_data csv"]
      date_filter_full [of "load_data csv" date_range "load_raw_data csv"]
      datetime_load_data [of csv]
    by simp
  show ?thesis using a b by (simp add: script_def date_filter_def)
qed

lemma three_days_datetimes:
  "map datetime (load_data three_days) = [((2024, 1, 2), 600), ((2024, 1, 1), 300), ((2024, 1, 3), 0)]"
  by (simp add: datetime_load_data three_days_def load_raw_data_def rename_row_def)

text \<open>
  Three rows on three days, not in chronological order: a range of the last two days keeps
  two rows in their order, a single bound keeps all three, and so does the default range.
\<close>

theorem range_selector_witness:
  "map datetime (filtered_data (script three_days [(2024, 1, 2), (2024, 1, 3)])) =
     [((2024, 1, 2), 600), ((2024, 1, 3), 0)] \<and>
   map datetime (filtered_data (script three_days [(2024, 1, 2)])) =
     [((2024, 1, 2), 600), ((2024, 1, 1), 300), ((2024, 1, 3), 0)] \<and>
   three_days \<noteq> [] \<and>
   default_date_range (load_data three_days) = Some [(2024, 1, 1), (2024, 1, 3)] \<and>
   map datetime (filtered_data (script three_days [(2024, 1, 1), (2024, 1, 3)])) =
     [((2024, 1, 2), 600), ((2024, 1, 1), 300), ((2024, 1, 3), 0)]"
proof -
  let ?inner = "[(2024, 1, 2), (2024, 1, 3)] :: date list"
  let ?single = "[(2024, 1, 2)] :: date list"
  let ?full = "[(2024, 1, 1), (2024, 1, 3)] :: date list"
  have d: "map datetime (data (script three_days dr)) =
      [((2024, 1, 2), 600), ((2024, 1, 1), 300), ((2024, 1, 3), 0)]" for dr
    by (simp add: script_def three_days_datetimes)
  have "filtered_data (script three_days ?inner) =
      filter (\<lambda>r. ?inner ! 0 \<le> dt_date (datetime r) \<and> dt_date (datetime r) \<le> ?inner ! 1)
        (data (script three_days ?inner))"
    using range_selector [of ?inner three_days] by simp
  then have "map datetime (filtered_data (script three_days ?inner)) =
      filter (\<lambda>t. ?inner ! 0 \<le> dt_date t \<and> dt_date t \<le> ?inner ! 1)
        (map datetime (data (script three_days ?inner)))"
    by (simp add: filter_map o_def)
  then have a: "map datetime (filtered_data (script three_days ?inner)) =
      [((2024, 1, 2), 600), ((2024, 1, 3), 0)]"
    by (simp add: d dt_date_def)
  have "filtered_data (script three_days ?single) = data (script three_days ?single)"
    using range_selector [of ?single three_days] by simp
  then have b: "map datetime (filtered_data (script three_days ?single)) =
      [((2024, 1, 2), 600), ((2024, 1, 1), 300), ((2024, 1, 3), 0)]"
    by (simp add: d)
  have c: "default_date_range (load_data three_days) = Some ?full"
    by (simp add: default_date_range_def three_days_datetimes dt_date_def)
  then have "filtered_data (script three_days ?full) = data (script three_days ?full)"
    using range_selector [of ?full three_days] by blast
  then have e: "map datetime (filtered_data (script three_days ?full)) =
      [((2024, 1, 2), 600), ((2024, 1, 1), 300), ((2024, 1, 3), 0)]"
    by (simp add: d)
  have "three_days \<noteq> []" by (simp add: three_days_def)
  with a b c e show ?thesis by simp
qed

section \<open>The year comparison\<close>

lemma year_values_temperature_row [simp]:
  "year_values (temperature_row ((y, m, d), t) x # df) y' v =
     (if y = y' \<and> v = temperature \<and> x \<noteq> NaN then x # year_values df y' v else year_values df y' v)"
  by (simp add: year_values_def temperature_row_def dt_year_def column_def dropna_def isnan_def)

lemma year_values_Nil [simp]: "year_values [] y v = []"
  by (simp add: year_values_def column_def dropna_def)

lemma mean_fin2: "mean [Fin a, Fin b] = Fin ((a + b) / 2)"
  by (simp add: mean_def dropna_def isnan_def fl_sum_def)
lemma mean_fin1: "mean [Fin a] = Fin a"
  by (simp add: mean_def dropna_def isnan_def fl_sum_def)
lemma mean_nil: "mean [] = NaN"
  by (simp add: mean_def dropna_def isnan_def fl_sum_def)

text \<open>
  C3 (as amended). The summary holds the means of the two years, and the percent change is
  \<open>(mean2 - mean1) / mean1 * 100\<close> when the mean of 2024 is not zero (a missing mean is
  not zero, and gives a missing change). When the mean of 2024 is exactly zero the change
  is positive infinity, whatever the sign of \<open>mean2 - mean1\<close>.
\<close>

theorem pct_change_rule:
  "Mean_2024 (summary_row (year_comparison S df var)) = mean (year_values df 2024 var) \<and>
   Mean_2025 (summary_row (year_comparison S df var)) = mean (year_values df 2025 var) \<and>
   Pct_Change (summary_row (year_comparison S df var)) =
     (if fl_ne (mean (year_values df 2024 var)) (Fin 0)
      then fl_mul (fl_div (fl_sub (mean (year_values df 2025 var)) (mean (year_values df 2024 var)))
                    (mean (year_values df 2024 var))) (Fin 100)
      else PInf) \<and>
   (fl_ne (mean (year_values df 2024 var)) (Fin 0) \<longleftrightarrow> mean (year_values df 2024 var) \<noteq> Fin 0)"
proof -
  have "fl_ne m (Fin 0) \<longleftrightarrow> m \<noteq> Fin 0" for m
    by (cases m) (simp_all add: fl_ne_def)
  then show ?thesis
    by (simp add: year_comparison_def pct_change_def Let_def split: sum.split prod.split)
qed

text \<open>The example of the specification: means 2 and 6, a change of 200 percent.\<close>

theorem pct_change_rule_witness:
  "Mean_2024 (summary_row (year_comparison strict_tests two_years temperature)) = Fin 2 \<and>
   Mean_2025 (summary_row (year_comparison strict_tests two_years temperature)) = Fin 6 \<and>
   Pct_Change (summary_row (year_comparison strict_tests two_years temperature)) = Fin 200"
  using pct_change_rule [of strict_tests two_years temperature]
  by (simp add: two_years_def mean_fin2 fl_ne_def fl_sub_def)

text \<open>
  With a mean of zero in 2024 and a negative mean in 2025 the difference of the means is
  negative, and the change is positive infinity, not negative infinity.
\<close>

theorem pct_change_sign_counterexample:
  "mean (year_values zero_baseline 2024 temperature) = Fin 0 \<and>
   fl_lt (fl_sub (mean (year_values zero_baseline 2025 temperature))
                 (mean (year_values zero_baseline 2024 temperature))) (Fin 0) \<and>
   Pct_Change (summary_row (year_comparison strict_tests zero_baseline temperature)) = PInf"
  by (simp add: zero_baseline_def mean_fin2 mean_fin1 year_comparison_def pct_change_def fl_ne_def fl_sub_def
      strict_tests_def)


lemma comparisons_nth:
  "i < length variables_to_plot \<Longrightarrow>
   fst (interannual_variability S s) ! i = year_comparison S (data s) (variables_to_plot ! i)"
  by (simp add: interannual_variability_def Let_def)

lemma significant_changes_set:
  "snd (interannual_variability S s) =
     significant_changes (map (\<lambda>v. summary_row (year_comparison S (data s) v)) variables_to_plot)"
  by (simp add: interannual_variability_def Let_def o_def)

lemma year_comparison_mw:
  "mw_result (year_comparison S df var) =
     (case mannwhitneyu S (year_values df 2024 var) (year_values df 2025 var) of
        Inl e \<Rightarrow> N_A | Inr (u, p_val) \<Rightarrow> P_equals p_val)"
  by (simp add: year_comparison_def Let_def split: sum.split prod.split)

lemma year_comparison_t:
  "t_result (year_comparison S df var) =
     (case ttest_ind S (year_values df 2024 var) (year_values df 2025 var) of
        Inl e \<Rightarrow> N_A | Inr (t, p_val) \<Rightarrow> P_equals p_val)"
  by (simp add: year_comparison_def Let_def split: sum.split prod.split)

lemma year_comparison_summary:
  "Variable (summary_row (year_comparison S df var)) = var_labels_dict var \<and>
   Mean_2024 (summary_row (year_comparison S df var)) = mean (year_values df 2024 var) \<and>
   Mean_2025 (summary_row (year_comparison S df var)) = mean (year_values df 2025 var) \<and>
   Pct_Change (summary_row (year_comparison S df var)) =
     pct_change (mean (year_values df 2024 var)) (mean (year_values df 2025 var))"
  by (simp add: year_comparison_def Let_def split: sum.split prod.split)

lemma year_comparison_mw_failed:
  "mannwhitneyu S (year_values df 2024 var) (year_values df 2025 var) = Inl e \<Longrightarrow>
   P_Value (summary_row (year_comparison S df var)) = NaN \<and>
   Significance (summary_row (year_comparison S df var)) = ''Not Significant''"
  by (simp add: year_comparison_def Let_def split: sum.split prod.split)

text \<open>
  C5. The section returns one comparison for every variable, whatever the two tests do.
  For each variable the line of a test is \<open>N/A\<close> exactly when that test raised and
  its p-value otherwise, each test on its own; the means and the percent change are
  those of the variable's two partitions.
\<close>

theorem test_failure_is_local:
  "length (fst (interannual_variability S s)) = length variables_to_plot \<and>
   (\<forall>i < length variables_to_plot.
      mw_result (fst (interannual_variability S s) ! i) =
        (case mannwhitneyu S (year_values (data s) 2024 (variables_to_plot ! i))
                (year_values (data s) 2025 (variables_to_plot ! i)) of
           Inl e \<Rightarrow> N_A | Inr (u, p_val) \<Rightarrow> P_equals p_val) \<and>
      t_result (fst (interannual_variability S s) ! i) =
        (case ttest_ind S (year_values (data s) 2024 (variables_to_plot ! i))
                (year_values (data s) 2025 (variables_to_plot ! i)) of
           Inl e \<Rightarrow> N_A | Inr (t, p_val) \<Rightarrow> P_equals p_val) \<and>
      Variable (summary_row (fst (interannual_variability S s) ! i)) =
        var_labels_dict (variables_to_plot ! i) \<and>
      Mean_2024 (summary_row (fst (interannual_variability S s) ! i)) =
        mean (year_values (data s) 2024 (variables_to_plot ! i)) \<and>
      Mean_2025 (summary_row (fst (interannual_variability S s) ! i)) =
        mean (year_values (data s) 2025 (variables_to_plot ! i)) \<and>
      Pct_Change (summary_row (fst (interannual_variability S s) ! i)) =
        pct_change (mean (year_values (data s) 2024 (variables_to_plot ! i)))
          (mean (year_values (data s) 2025 (variables_to_plot ! i))))"
proof -
  have "length (fst (interannual_variability S s)) = length variables_to_plot"
    by (simp add: interannual_variability_def Let_def)
  then show ?thesis
    using year_comparison_mw [of S "data s"] year_comparison_t [of S "data s"]
      year_comparison_summary [of S "data s"]
    by (simp add: comparisons_nth)
qed

text \<open>
  With an empty partition for 2025 both tests raise and both lines read \<open>N/A\<close>; the
  mean of 2024 is 5, the mean of 2025 and the percent change are missing.
\<close>

theorem test_failure_is_local_witness:
  "(0::nat) < length variables_to_plot \<and>
   mannwhitneyu strict_tests (year_values only_2024 2024 temperature)
     (year_values only_2024 2025 temperature) = Inl ValueError \<and>
   mw_result (fst (interannual_variability strict_tests (session_of only_2024)) ! 0) = N_A \<and>
   t_result (fst (interannual_variability strict_tests (session_of only_2024)) ! 0) = N_A \<and>
   Mean_2024 (summary_row (fst (interannual_variability strict_tests (session_of only_2024)) ! 0)) = Fin 5 \<and>
   Mean_2025 (summary_row (fst (interannual_variability strict_tests (session_of only_2024)) ! 0)) = NaN \<and>
   Pct_Change (summary_row (fst (interannual_variability strict_tests (session_of only_2024)) ! 0)) = NaN"
proof -
  have n: "(0::nat) < length variables_to_plot" and v: "variables_to_plot ! 0 = temperature"
    by (simp_all add: variables_to_plot_def)
  have d: "data (session_of only_2024) = only_2024"
    by (simp add: session_of_def)
  have y: "year_values only_2024 2024 temperature = [Fin 4, Fin 6]"
    "year_values only_2024 2025 temperature = []"
    by (simp_all add: only_2024_def)
  from test_failure_is_local [of strict_tests "session_of only_2024"] n
  show ?thesis
    by (simp add: v d y mean_fin2 mean_nil pct_change_def fl_ne_def fl_sub_def strict_tests_def)
qed

text \<open>
  C10. When the Mann-Whitney test raises for a variable, its annotation reads \<open>N/A\<close>,
  its p-value in the summary is NaN, its significance reads \<open>Not Significant\<close> and it
  is not in the list of significant changes.
\<close>

theorem failed_test_reads_not_significant:
  "\<forall>i < length variables_to_plot.
     (\<exists>e. mannwhitneyu S (year_values (data s) 2024 (variables_to_plot ! i))
             (year_values (data s) 2025 (variables_to_plot ! i)) = Inl e) \<longrightarrow>
     mw_result (fst (interannual_variability S s) ! i) = N_A \<and>
     P_Value (summary_row (fst (interannual_variability S s) ! i)) = NaN \<and>
     Significance (summary_row (fst (interannual_variability S s) ! i)) = ''Not Significant'' \<and>
     summary_row (fst (interannual_variability S s) ! i) \<notin> set (snd (interannual_variability S s))"
proof (intro allI impI)
  fix i
  assume i: "i < length variables_to_plot"
    and "\<exists>e. mannwhitneyu S (year_values (data s) 2024 (variables_to_plot ! i))
             (year_values (data s) 2025 (variables_to_plot ! i)) = Inl e"
  then obtain e where e: "mannwhitneyu S (year_values (data s) 2024 (variables_to_plot ! i))
             (year_values (data s) 2025 (variables_to_plot ! i)) = Inl e" by blast
  let ?c = "fst (interannual_variability S s) ! i"
  have c: "?c = year_comparison S (data s) (variables_to_plot ! i)"
    using i by (rule comparisons_nth)
  have na: "mw_result ?c = N_A" by (simp add: c year_comparison_mw e)
  have nan: "P_Value (summary_row ?c) = NaN" "Significance (summary_row ?c) = ''Not Significant''"
    using year_comparison_mw_failed [OF e] by (simp_all add: c)
  have "summary_row ?c \<notin> set (snd (interannual_variability S s))"
    unfolding significant_changes_set significant_changes_def using nan(1)
    by (simp add: isnan_def)
  with na nan show "mw_result ?c = N_A \<and> P_Value (summary_row ?c) = NaN \<and>
     Significance (summary_row ?c) = ''Not Significant'' \<and>
     summary_row ?c \<notin> set (snd (interannual_variability S s))" by simp
qed

theorem failed_test_reads_not_significant_witness:
  "(0::nat) < length variables_to_plot \<and>
   mannwhitneyu strict_tests (year_values (data (session_of only_2024)) 2024 (variables_to_plot ! 0))
     (year_values (data (session_of only_2024)) 2025 (variables_to_plot ! 0)) = Inl ValueError \<and>
   Significance (summary_row (fst (interannual_variability strict_tests (session_of only_2024)) ! 0)) =
     ''Not Significant'' \<and>
   snd (interannual_variability strict_tests (session_of only_2024)) = []"
proof -
  have n: "(0::nat) < length variables_to_plot" and v: "variables_to_plot ! 0 = temperature"
    by (simp_all add: variables_to_plot_def)
  have d: "data (session_of only_2024) = only_2024"
    by (simp add: session_of_def)
  have y: "year_values only_2024 2024 temperature = [Fin 4, Fin 6]"
    "year_values only_2024 2025 v = []" for v
    by (simp_all add: only_2024_def)
  have f: "mannwhitneyu strict_tests (year_values only_2024 2024 w) (year_values only_2024 2025 w) = Inl ValueError" for w
    by (simp add: y strict_tests_def)
  have "snd (interannual_variability strict_tests (session_of only_2024)) = []"
    unfolding significant_changes_set significant_changes_def d
    using year_comparison_mw_failed [of strict_tests only_2024, OF f]
    by (simp add: filter_empty_conv)
  with failed_test_reads_not_significant [of strict_tests "session_of only_2024"] n f [of temperature]
  show ?thesis by (simp add: v d)
qed

text \<open>
  C9. The year comparison is computed from the clean dataset as loaded: two runs that
  differ in the selected date range only return the same comparisons and the same list
  of significant changes.
\<close>

theorem interannual_ignores_date_range:
  "interannual_variability S (script csv date_range) =
     interannual_variability S (script csv date_range') \<and>
   fst (interannual_variability S (script csv date_range)) =
     map (year_comparison S (load_data csv)) variables_to_plot"
  by (simp add: interannual_variability_def script_def Let_def)

section \<open>The IQR outlier summary\<close>

lemma for_each_total:
  "(\<forall>x \<in> set xs. f x = Inr (g x)) \<Longrightarrow> for_each f xs = Inr (map g xs)"
  by (induction xs) simp_all

lemma outlier_entry_total: "\<exists>res. outlier_entry df var = Inr res"
  by (simp add: outlier_entry_def true_divide_def Let_def)

lemma dropna_all_null: "(\<forall>x \<in> set xs. x = NaN) \<Longrightarrow> dropna xs = []"
  by (simp add: dropna_def isnan_def filter_empty_conv)

text \<open>
  C8. The summary of a variable never fails; for a variable without a value it is the
  count 0 and the percentage 0; it depends on the column of that variable only; and the
  summary of all variables returns one entry for each of them.
\<close>

theorem outlier_entry_guarded:
  "(\<exists>res. outlier_entry df var = Inr res) \<and>
   ((\<forall>x \<in> set (column df var). x = NaN) \<longrightarrow>
      outlier_entry df var = Inr (Fin 0, 0, var_label var)) \<and>
   (column df var = column df' var \<longrightarrow> outlier_entry df var = outlier_entry df' var) \<and>
   (\<exists>rs. outlier_summary s = Inr rs \<and> length rs = length variables \<and>
      (\<forall>i < length variables.
         outlier_entry (filtered_raw_data s) (variables ! i) = Inr (rs ! i)))"
proof -
  have a: "outlier_entry df var = Inr (Fin 0, 0, var_label var)"
    if "\<forall>x \<in> set (column df var). x = NaN"
    using dropna_all_null [OF that] by (simp add: outlier_entry_def)
  have b: "outlier_entry df var = outlier_entry df' var" if "column df var = column df' var"
    using that by (simp add: outlier_entry_def)
  let ?g = "\<lambda>v. projr (outlier_entry (filtered_raw_data s) v)"
  have "\<forall>v \<in> set variables. outlier_entry (filtered_raw_data s) v = Inr (?g v)"
    using outlier_entry_total [of "filtered_raw_data s"] by (metis sum.sel(2))
  then have "outlier_summary s = Inr (map ?g variables)"
    unfolding outlier_summary_def by (rule for_each_total)
  moreover have "\<forall>i < length variables.
      outlier_entry (filtered_raw_data s) (variables ! i) = Inr (map ?g variables ! i)"
    using outlier_entry_total [of "filtered_raw_data s"] by (metis nth_map sum.sel(2))
  ultimately have c: "\<exists>rs. outlier_summary s = Inr rs \<and> length rs = length variables \<and>
      (\<forall>i < length variables.
         outlier_entry (filtered_raw_data s) (variables ! i) = Inr (rs ! i))"
    by (metis length_map)
  from a b c outlier_entry_total [of df var] show ?thesis by blast
qed

text \<open>
  Two frames with the same, empty, pressure column and different temperatures: the
  pressure summary of both is count 0 and percentage 0.
\<close>

theorem outlier_entry_guarded_witness:
  "set (column only_2024 pressure) = {NaN} \<and>
   outlier_entry only_2024 pressure = Inr (Fin 0, 0, ''Pressure'') \<and>
   column only_2024 pressure = column (take 2 two_years) pressure \<and>
   column only_2024 temperature \<noteq> column (take 2 two_years) temperature \<and>
   outlier_entry (take 2 two_years) pressure = Inr (Fin 0, 0, ''Pressure'')"
proof -
  have c: "column only_2024 pressure = [NaN, NaN]"
    "column (take 2 two_years) pressure = [NaN, NaN]"
    "column only_2024 temperature = [Fin 4, Fin 6]"
    "column (take 2 two_years) temperature = [Fin 1, Fin 3]"
    by (simp_all add: column_def only_2024_def two_years_def temperature_row_def)
  from outlier_entry_guarded [of only_2024 pressure "take 2 two_years" "session_of only_2024"]
  have "outlier_entry only_2024 pressure = Inr (Fin 0, 0, ''Pressure'')"
    "outlier_entry only_2024 pressure = outlier_entry (take 2 two_years) pressure"
    by (auto simp: c)
  then show ?thesis by (simp add: c)
qed

section \<open>Best-fit pair selection\<close>

lemma fl_lt_irrefl: "\<not> fl_lt a a"
  by (cases a) simp_all

lemma fl_ge_iff_not_lt: "a \<noteq> NaN \<Longrightarrow> b \<noteq> NaN \<Longrightarrow> fl_ge a b \<longleftrightarrow> \<not> fl_lt a b"
  by (cases a; cases b) (auto simp: fl_ge_def fl_le_def)

lemma fl_ge_trans: "fl_ge a b \<Longrightarrow> fl_ge b c \<Longrightarrow> fl_ge a c"
  by (cases a; cases b; cases c) (auto simp: fl_ge_def fl_le_def)

lemma fl_lt_imp_ge: "fl_lt a b \<Longrightarrow> fl_ge b a"
  by (simp add: fl_ge_def fl_le_def)

lemma mset_insort_reverse: "mset (insort_reverse key x ys) = add_mset x (mset ys)"
  by (induction ys) simp_all

lemma mset_sorted_reverse: "mset (sorted_reverse key xs) = mset xs"
  by (induction xs) (simp_all add: sorted_reverse_def mset_insort_reverse)

lemma set_sorted_reverse: "set (sorted_reverse key xs) = set xs"
  using mset_sorted_reverse [of key xs] by (metis set_mset_mset)

lemma sorted_insort_reverse:
  assumes "sorted_wrt (\<lambda>a b. fl_ge (key a) (key b)) ys"
    and "key x \<noteq> NaN" and "\<forall>y \<in> set ys. key y \<noteq> NaN"
  shows "sorted_wrt (\<lambda>a b. fl_ge (key a) (key b)) (insort_reverse key x ys)"
  using assms
proof (induction ys)
  case Nil
  then show ?case by simp
next
  case (Cons y ys)
  show ?case
  proof (cases "fl_lt (key x) (key y)")
    case True
    have "\<forall>z \<in> set (insort_reverse key x ys). fl_ge (key y) (key z)"
    proof
      fix z assume "z \<in> set (insort_reverse key x ys)"
      then have "z \<in># mset (insort_reverse key x ys)" by simp
      then have "z = x \<or> z \<in> set ys" by (simp add: mset_insort_reverse)
      then show "fl_ge (key y) (key z)"
        using True Cons.prems(1) by (auto simp: fl_lt_imp_ge)
    qed
    with True Cons show ?thesis by simp
  next
    case False
    then have xy: "fl_ge (key x) (key y)"
      using Cons.prems by (simp add: fl_ge_iff_not_lt)
    then have "\<forall>z \<in> set ys. fl_ge (key x) (key z)"
      using Cons.prems(1) fl_ge_trans by auto
    with False xy Cons.prems(1) show ?thesis by simp
  qed
qed

lemma sorted_sorted_reverse:
  "\<forall>x \<in> set xs. key x \<noteq> NaN \<Longrightarrow>
   sorted_wrt (\<lambda>a b. fl_ge (key a) (key b)) (sorted_reverse key xs)"
proof (induction xs)
  case Nil
  show ?case by (simp add: sorted_reverse_def)
next
  case (Cons x xs)
  then have "sorted_wrt (\<lambda>a b. fl_ge (key a) (key b)) (sorted_reverse key xs)" by simp
  moreover have "\<forall>y \<in> set (sorted_reverse key xs). key y \<noteq> NaN"
    using Cons.prems by (simp add: set_sorted_reverse)
  ultimately have "sorted_wrt (\<lambda>a b. fl_ge (key a) (key b))
      (insort_reverse key x (sorted_reverse key xs))"
    using Cons.prems by (intro sorted_insort_reverse) simp_all
  then show ?case by (simp add: sorted_reverse_def)
qed

lemma filter_insort_reverse:
  "filter (\<lambda>y. key y = k) (insort_reverse key x ys) =
     (if key x = k then x # filter (\<lambda>y. key y = k) ys else filter (\<lambda>y. key y = k) ys)"
  by (induction ys) (auto simp: fl_lt_irrefl)

lemma sorted_reverse_stable:
  "filter (\<lambda>y. key y = k) (sorted_reverse key xs) = filter (\<lambda>y. key y = k) xs"
  by (induction xs) (simp_all add: sorted_reverse_def filter_insort_reverse)

lemma abs_gt_threshold: "fl_gt (fl_abs (Fin a)) threshold_r \<longleftrightarrow> 8 / 10 < a * a"
proof -
  have "sqrt (8 / 10) < \<bar>a\<bar> \<longleftrightarrow> 8 / 10 < a\<^sup>2"
    using real_sqrt_less_iff [of "8 / 10" "a\<^sup>2"] by simp
  then show ?thesis by (simp add: fl_gt_def threshold_r_def power2_eq_square)
qed

lemma threshold_iff_r2:
  "fl_gt (fl_abs x) threshold_r \<longleftrightarrow> fl_gt (fl_mul x x) (Fin (8 / 10))"
proof (cases x)
  case (Fin a)
  then show ?thesis using abs_gt_threshold [of a] by (simp add: fl_gt_def)
qed (simp_all add: fl_gt_def threshold_r_def)

lemma fl_gt_not_nan: "fl_gt a b \<Longrightarrow> a \<noteq> NaN"
  by (cases a; cases b) (auto simp: fl_gt_def)

lemma r2_not_nan: "fl_gt (fl_mul x x) b \<Longrightarrow> fl_mul x x \<noteq> NaN"
  by (cases x; cases b) (auto simp: fl_gt_def)

lemma candidate_entry:
  "candidate corr p_vals i j =
     (if fl_gt (fl_abs (corr ! i ! j)) threshold_r \<and> fl_lt (p_vals ! i ! j) (Fin (5 / 100))
      then [entry corr p_vals i j] else [])"
  by (simp add: candidate_def entry_def Let_def)




lemma in_concat_map: "x \<in> set (concat (map f xs)) \<longleftrightarrow> (\<exists>y \<in> set xs. x \<in> set (f y))"
  by auto

lemma set_candidates_fwd:
  assumes "x \<in> set (candidates corr p_vals)"
  shows "\<exists>i j. i < j \<and> j < length variables \<and>
        fl_gt (fl_abs (corr ! i ! j)) threshold_r \<and> fl_lt (p_vals ! i ! j) (Fin (5 / 100)) \<and>
        x = entry corr p_vals i j"
proof -
  from assms obtain i where i: "i \<in> set [0..<length variables]"
    and "x \<in> set (concat (map (\<lambda>j. candidate corr p_vals i j) [i + 1..<length variables]))"
    unfolding candidates_def in_concat_map by blast
  then obtain j where j: "j \<in> set [i + 1..<length variables]"
    and x: "x \<in> set (candidate corr p_vals i j)"
    unfolding in_concat_map by blast
  from x have c: "fl_gt (fl_abs (corr ! i ! j)) threshold_r"
    "fl_lt (p_vals ! i ! j) (Fin (5 / 100))" "x = entry corr p_vals i j"
    unfolding candidate_entry by (simp_all split: if_splits)
  from j have "i < j" "j < length variables" by simp_all
  with c show ?thesis by blast
qed

lemma set_candidates_bwd:
  assumes "i < j" "j < length variables"
    "fl_gt (fl_abs (corr ! i ! j)) threshold_r" "fl_lt (p_vals ! i ! j) (Fin (5 / 100))"
  shows "entry corr p_vals i j \<in> set (candidates corr p_vals)"
proof -
  from assms(3,4) have "entry corr p_vals i j \<in> set (candidate corr p_vals i j)"
    by (simp add: candidate_entry)
  moreover from assms(1,2) have "j \<in> set [i + 1..<length variables]" by simp
  ultimately have "entry corr p_vals i j \<in>
      set (concat (map (\<lambda>j. candidate corr p_vals i j) [i + 1..<length variables]))"
    unfolding in_concat_map by blast
  moreover from assms(1,2) have "i \<in> set [0..<length variables]" by simp
  ultimately show ?thesis
    unfolding candidates_def in_concat_map by blast
qed

lemma set_candidates:
  "x \<in> set (candidates corr p_vals) \<longleftrightarrow>
     (\<exists>i j. i < j \<and> j < length variables \<and>
        fl_gt (fl_abs (corr ! i ! j)) threshold_r \<and> fl_lt (p_vals ! i ! j) (Fin (5 / 100)) \<and>
        x = entry corr p_vals i j)"
  using set_candidates_fwd [of x corr p_vals] set_candidates_bwd [of _ _ corr p_vals] by blast

text \<open>
  C1. The candidates are exactly the entries of the pairs \<open>i < j\<close> with
  \<open>|r| > sqrt 0.8\<close> and \<open>p < 0.05\<close>, and \<open>|r| > sqrt 0.8\<close> is the same as
  \<open>r\<^sup>2 > 0.8\<close>. The list of best pairs is the first six of the candidates sorted by
  \<open>r\<^sup>2\<close>: the sorted list is a permutation of the candidates, its keys descend, and
  candidates of equal \<open>r\<^sup>2\<close> keep the order of the enumeration. So the list has at most
  six entries, its keys descend, and each entry has \<open>r\<^sup>2 > 0.8\<close> and \<open>p < 0.05\<close>.
\<close>

theorem best_pairs_selection:
  "(\<forall>x. x \<in> set (candidates corr p_vals) \<longleftrightarrow>
      (\<exists>i j. i < j \<and> j < length variables \<and>
         fl_gt (fl_abs (corr ! i ! j)) threshold_r \<and>
         fl_lt (p_vals ! i ! j) (Fin (5 / 100)) \<and>
         x = entry corr p_vals i j)) \<and>
   (\<forall>x. fl_gt (fl_abs x) threshold_r \<longleftrightarrow> fl_gt (fl_mul x x) (Fin (8 / 10))) \<and>
   best_pairs corr p_vals = take 6 (sorted_reverse pair_r2 (candidates corr p_vals)) \<and>
   mset (sorted_reverse pair_r2 (candidates corr p_vals)) = mset (candidates corr p_vals) \<and>
   sorted_wrt (\<lambda>a b. fl_ge (pair_r2 a) (pair_r2 b))
     (sorted_reverse pair_r2 (candidates corr p_vals)) \<and>
   (\<forall>k. filter (\<lambda>x. pair_r2 x = k) (sorted_reverse pair_r2 (candidates corr p_vals)) =
        filter (\<lambda>x. pair_r2 x = k) (candidates corr p_vals)) \<and>
   sorted_wrt (\<lambda>a b. fl_ge (pair_r2 a) (pair_r2 b)) (best_pairs corr p_vals) \<and>
   length (best_pairs corr p_vals) \<le> 6 \<and>
   (\<forall>x \<in> set (best_pairs corr p_vals).
      fl_gt (pair_r2 x) (Fin (8 / 10)) \<and> fl_lt (pair_p x) (Fin (5 / 100)))"
proof -
  let ?cs = "candidates corr p_vals"
  let ?srt = "sorted_reverse pair_r2 ?cs"
  have sel: "fl_gt (pair_r2 x) (Fin (8 / 10)) \<and> fl_lt (pair_p x) (Fin (5 / 100))"
    if "x \<in> set ?cs" for x
  proof -
    from that obtain i j where c: "fl_gt (fl_abs (corr ! i ! j)) threshold_r"
      "fl_lt (p_vals ! i ! j) (Fin (5 / 100))" and x: "x = entry corr p_vals i j"
      using set_candidates [of x corr p_vals] by blast
    from c(1) have "fl_gt (fl_mul (corr ! i ! j) (corr ! i ! j)) (Fin (8 / 10))"
      by (simp only: threshold_iff_r2)
    with c(2) show ?thesis by (simp add: x entry_def)
  qed
  then have nn: "\<forall>x \<in> set ?cs. pair_r2 x \<noteq> NaN"
    using fl_gt_not_nan by blast
  have srt: "sorted_wrt (\<lambda>a b. fl_ge (pair_r2 a) (pair_r2 b)) ?srt"
    using nn by (rule sorted_sorted_reverse)
  then have srt6: "sorted_wrt (\<lambda>a b. fl_ge (pair_r2 a) (pair_r2 b)) (best_pairs corr p_vals)"
    unfolding best_pairs_def by (rule sorted_wrt_take)
  have "set (best_pairs corr p_vals) \<subseteq> set ?cs"
    unfolding best_pairs_def using set_take_subset [of 6 ?srt] by (simp add: set_sorted_reverse)
  with sel have all: "\<forall>x \<in> set (best_pairs corr p_vals).
      fl_gt (pair_r2 x) (Fin (8 / 10)) \<and> fl_lt (pair_p x) (Fin (5 / 100))"
    by blast
  have len: "length (best_pairs corr p_vals) \<le> 6"
    by (simp add: best_pairs_def)
  have stable: "\<forall>k. filter (\<lambda>x. pair_r2 x = k) ?srt = filter (\<lambda>x. pair_r2 x = k) ?cs"
    by (simp add: sorted_reverse_stable)
  have cand: "\<forall>x. x \<in> set ?cs \<longleftrightarrow>
      (\<exists>i j. i < j \<and> j < length variables \<and>
         fl_gt (fl_abs (corr ! i ! j)) threshold_r \<and>
         fl_lt (p_vals ! i ! j) (Fin (5 / 100)) \<and>
         x = entry corr p_vals i j)"
    using set_candidates by blast
  have thr: "\<forall>x. fl_gt (fl_abs x) threshold_r \<longleftrightarrow> fl_gt (fl_mul x x) (Fin (8 / 10))"
    using threshold_iff_r2 by blast
  have bp: "best_pairs corr p_vals = take 6 ?srt"
    by (simp only: best_pairs_def)
  have ms: "mset ?srt = mset ?cs"
    by (rule mset_sorted_reverse)
  from cand thr bp ms srt stable srt6 len all show ?thesis
    by (intro conjI)
qed


lemma gt_threshold: "fl_gt (Fin a) threshold_r \<longleftrightarrow> 0 < a \<and> 8 / 10 < a * a"
proof (cases "0 < a")
  case True
  then show ?thesis using abs_gt_threshold [of a] by (simp add: fl_gt_def threshold_r_def)
next
  case False
  moreover have "0 \<le> sqrt (8 / 10 :: real)" by simp
  ultimately have "\<not> sqrt (8 / 10) < a" by linarith
  with False show ?thesis by (simp add: fl_gt_def threshold_r_def)
qed

lemma upt_Suc_left: "i < j \<Longrightarrow> [i..<j] = i # [Suc i..<j]"
  by (rule upt_conv_Cons)

lemma example_corr_nth:
  "i < j \<Longrightarrow> j < 9 \<Longrightarrow>
   example_corr ! i ! j =
     (if i = 0 then Fin (9 / 10)
      else if i = 1 \<and> j = 2 then Fin (- (95 / 100)) else Fin (1 / 10))"
  by (cases i) (auto simp: example_corr_def nth_Cons' nth_list_update)

lemma example_p_nth: "i < j \<Longrightarrow> j < 9 \<Longrightarrow> example_p ! i ! j = Fin (1 / 100)"
  by (simp add: example_p_def)

lemma example_candidate:
  "i < j \<Longrightarrow> j < 9 \<Longrightarrow>
   candidate example_corr example_p i j =
     (if i = 0 \<or> (i = 1 \<and> j = 2) then [entry example_corr example_p i j] else [])"
  unfolding candidate_entry by (auto simp: example_corr_nth example_p_nth gt_threshold)

lemma example_key:
  "i < j \<Longrightarrow> j < 9 \<Longrightarrow>
   pair_r2 (entry example_corr example_p i j) =
     (if i = 0 then Fin (81 / 100)
      else if i = 1 \<and> j = 2 then Fin (9025 / 10000) else Fin (1 / 100))"
  by (simp add: entry_def example_corr_nth)

lemma example_candidates:
  "candidates example_corr example_p =
     [entry example_corr example_p 0 1, entry example_corr example_p 0 2,
      entry example_corr example_p 0 3, entry example_corr example_p 0 4,
      entry example_corr example_p 0 5, entry example_corr example_p 0 6,
      entry example_corr example_p 0 7, entry example_corr example_p 0 8,
      entry example_corr example_p 1 2]"
  apply (simp add: candidates_def variables_def upt_Suc_left example_candidate)
  apply (simp add: eval_nat_numeral)
  done


lemma example_best_pairs:
  "best_pairs example_corr example_p =
     [entry example_corr example_p 1 2, entry example_corr example_p 0 1,
      entry example_corr example_p 0 2, entry example_corr example_p 0 3,
      entry example_corr example_p 0 4, entry example_corr example_p 0 5]"
  by (simp add: best_pairs_def example_candidates sorted_reverse_def example_key)

text \<open>
  Nine candidates: the pair with \<open>r = -0.95\<close> comes first, then the first five of the
  eight pairs with \<open>r = 0.9\<close>, in the order of their enumeration.
\<close>

theorem best_pairs_selection_witness:
  "length (candidates example_corr example_p) = 9 \<and>
   map (\<lambda>x. (var1 x, var2 x)) (best_pairs example_corr example_p) =
     [(pressure, salinity), (temperature, pressure), (temperature, salinity),
      (temperature, chlorophyll_a), (temperature, turbidity), (temperature, ph)] \<and>
   map pair_r2 (best_pairs example_corr example_p) =
     [Fin (9025 / 10000), Fin (81 / 100), Fin (81 / 100), Fin (81 / 100), Fin (81 / 100),
      Fin (81 / 100)] \<and>
   fl_gt (pair_r2 (best_pairs example_corr example_p ! 0)) (Fin (8 / 10)) \<and>
   fl_lt (pair_p (best_pairs example_corr example_p ! 0)) (Fin (5 / 100))"
proof -
  have "best_pairs example_corr example_p ! 0 \<in> set (best_pairs example_corr example_p)"
    by (simp add: example_best_pairs)
  with best_pairs_selection [of example_corr example_p]
  have "fl_gt (pair_r2 (best_pairs example_corr example_p ! 0)) (Fin (8 / 10)) \<and>
      fl_lt (pair_p (best_pairs example_corr example_p ! 0)) (Fin (5 / 100))"
    by blast
  moreover have "map (\<lambda>x. (var1 x, var2 x)) (best_pairs example_corr example_p) =
     [(pressure, salinity), (temperature, pressure), (temperature, salinity),
      (temperature, chlorophyll_a), (temperature, turbidity), (temperature, ph)]"
    by (simp add: example_best_pairs entry_def variables_def)
  moreover have "map pair_r2 (best_pairs example_corr example_p) =
     [Fin (9025 / 10000), Fin (81 / 100), Fin (81 / 100), Fin (81 / 100), Fin (81 / 100),
      Fin (81 / 100)]"
    by (simp add: example_best_pairs example_key)
  moreover have "length (candidates example_corr example_p) = 9"
    by (simp add: example_candidates)
  ultimately show ?thesis by simp
qed

section \<open>The correlation matrix and its p-values\<close>




















































lemma corr_matrix_shape:
  "length (corr_matrix rnd df) = length variables \<and>
   (\<forall>row \<in> set (corr_matrix rnd df). length row = length variables)"
  by (auto simp: corr_matrix_def)

end
